theory Spec2Isabelle
  imports Complex_Main
begin

section \<open>The control loops of the two programs\<close>

text \<open>
  Both programs (\<^verbatim>\<open>dynamicWalk.cpp\<close> and \<^verbatim>\<open>quadruped_control.cpp\<close>) run a
  fixed-period loop around a \<^verbatim>\<open>switch\<close> on an unscoped C++ enum. An unscoped enum
  variable can hold any value of its underlying integer type, so the state variable is
  an integer here and the enumerators are the constants 0, 1, 2, 3 in declaration order.

  Clock readings (\<^verbatim>\<open>std::chrono::steady_clock::now()\<close>) and durations in seconds
  (\<^verbatim>\<open>std::chrono::duration<double>\<close>) are real numbers. Every method of the robot
  object that a tick calls is recorded, in call order, as an \<open>action\<close> of that tick.
\<close>

type_synonym ctrl_state_type = int

datatype action =
    SpreadAllLegs
  | PushAllLegs real real
  | StartBodyRUpdate
  | PlanDynamicGait
  | FollowDynamicGait real
  | Freeze
  | PlanStandUpTraj real
  | ExecStandUpTraj real
  | AppExit

record loop_state =
  cur_ctrl_state :: ctrl_state_type
  state_enter_time :: real
  first_time_enter :: bool

text \<open>
  What one pass of the loop body reads from outside: the quit button, the clock at the
  assignment of \<^verbatim>\<open>state_curr_time\<close>, the clock at a later assignment of
  \<^verbatim>\<open>state_enter_time\<close> (read only when the branch assigns it), and the value
  \<^verbatim>\<open>getTotalTime()\<close> returns on this pass (the method is declared in
  \<^verbatim>\<open>quadruped.hpp\<close>, which is not part of the sources at hand).
\<close>

record tick_input =
  quit_button :: bool
  clock_curr :: real
  clock_enter :: real
  getTotalTime :: real

subsection \<open>\<^verbatim>\<open>dynamicWalk.cpp\<close>\<close>

definition QUAD_CTRL_STAND_UP1 :: ctrl_state_type where
  "QUAD_CTRL_STAND_UP1 = 0"

definition QUAD_CTRL_STAND_UP2 :: ctrl_state_type where
  "QUAD_CTRL_STAND_UP2 = 1"

definition QUAD_DYNAMIC_WALK :: ctrl_state_type where
  "QUAD_DYNAMIC_WALK = 2"

definition CTRL_STATES_COUNT :: ctrl_state_type where
  "CTRL_STATES_COUNT = 3"

definition startup_seconds :: real where
  "startup_seconds = 1.9"

text \<open>The variables as \<^verbatim>\<open>main\<close> initialises them before the loop.\<close>

definition dynamicWalk_init :: "real \<Rightarrow> loop_state" where
  "dynamicWalk_init t0 =
     \<lparr>cur_ctrl_state = QUAD_CTRL_STAND_UP1, state_enter_time = t0, first_time_enter = False\<rparr>"

text \<open>
  One pass of the loop body. \<open>None\<close> is \<^verbatim>\<open>std::terminate()\<close> on the quit button;
  otherwise the pass returns the updated variables and the calls it made.
\<close>

definition dynamicWalk_tick :: "tick_input \<Rightarrow> loop_state \<Rightarrow> (loop_state \<times> action list) option" where
  "dynamicWalk_tick inp s =
     (if quit_button inp then None
      else if cur_ctrl_state s = QUAD_CTRL_STAND_UP1 then
        (let state_run_time = clock_curr inp - state_enter_time s in
         if state_run_time \<ge> startup_seconds
         then Some (s\<lparr>cur_ctrl_state := QUAD_CTRL_STAND_UP2, state_enter_time := clock_enter inp\<rparr>,
                    [SpreadAllLegs])
         else Some (s, [SpreadAllLegs]))
      else if cur_ctrl_state s = QUAD_CTRL_STAND_UP2 then
        (let state_run_time = clock_curr inp - state_enter_time s in
         if state_run_time \<ge> startup_seconds
         then Some (s\<lparr>cur_ctrl_state := QUAD_DYNAMIC_WALK, first_time_enter := True,
                      state_enter_time := clock_enter inp\<rparr>,
                    [PushAllLegs state_run_time startup_seconds, StartBodyRUpdate])
         else Some (s, [PushAllLegs state_run_time startup_seconds]))
      else if cur_ctrl_state s = QUAD_DYNAMIC_WALK then
        (let state_run_time = clock_curr inp - state_enter_time s in
         if state_run_time \<ge> getTotalTime inp
         then Some (s\<lparr>state_enter_time := clock_enter inp, first_time_enter := True\<rparr>, [])
         else if first_time_enter s
         then Some (s\<lparr>first_time_enter := False\<rparr>,
                    [PlanDynamicGait, FollowDynamicGait state_run_time])
         else Some (s, [FollowDynamicGait state_run_time]))
      else Some (s, [Freeze]))"

text \<open>
  The loop over a sequence of passes: the variables after each pass and the calls of
  that pass, up to the pass that terminates the program (if any).
\<close>

fun dynamicWalk_run :: "loop_state \<Rightarrow> tick_input list \<Rightarrow> (loop_state \<times> action list) list" where
  "dynamicWalk_run s [] = []"
| "dynamicWalk_run s (inp # inps) =
     (case dynamicWalk_tick inp s of
        None \<Rightarrow> []
      | Some (s', acts) \<Rightarrow> (s', acts) # dynamicWalk_run s' inps)"

subsection \<open>\<^verbatim>\<open>quadruped_control.cpp\<close>\<close>

definition HEXA_CTRL_STAND_UP_PLAN :: ctrl_state_type where
  "HEXA_CTRL_STAND_UP_PLAN = 0"

definition HEXA_CTRL_STAND_UP :: ctrl_state_type where
  "HEXA_CTRL_STAND_UP = 1"

definition QUAD_CTRL_NORMAL :: ctrl_state_type where
  "QUAD_CTRL_NORMAL = 2"

definition control_CTRL_STATES_COUNT :: ctrl_state_type where
  "control_CTRL_STATES_COUNT = 3"

definition control_startup_seconds :: real where
  "control_startup_seconds = 4.5"

text \<open>
  One pass of the control thread's loop body. The quit button calls \<^verbatim>\<open>app.exit()\<close>,
  which asks the GUI event loop to stop; the pass goes on to the \<^verbatim>\<open>switch\<close>. The
  variable \<^verbatim>\<open>first_time_enter\<close> does not exist in this program and is carried
  unchanged.
\<close>

definition control_tick :: "tick_input \<Rightarrow> loop_state \<Rightarrow> loop_state \<times> action list" where
  "control_tick inp s =
     (let quit = (if quit_button inp then [AppExit] else []) in
      if cur_ctrl_state s = HEXA_CTRL_STAND_UP_PLAN then
        (s\<lparr>cur_ctrl_state := HEXA_CTRL_STAND_UP, state_enter_time := clock_enter inp\<rparr>,
         quit @ [PlanStandUpTraj control_startup_seconds])
      else if cur_ctrl_state s = HEXA_CTRL_STAND_UP then
        (let state_run_time = clock_curr inp - state_enter_time s in
         if state_run_time \<ge> control_startup_seconds
         then (s\<lparr>cur_ctrl_state := QUAD_CTRL_NORMAL\<rparr>, quit @ [ExecStandUpTraj state_run_time])
         else (s, quit @ [ExecStandUpTraj state_run_time]))
      else if cur_ctrl_state s = QUAD_CTRL_NORMAL then (s, quit)
      else (s, quit))"

section \<open>Numbers, vectors and matrices\<close>

text \<open>
  A C++ \<^verbatim>\<open>double\<close> is either not-a-number or a finite value. Finite arithmetic is exact
  (no rounding), and there are no infinities: an operation that IEEE 754 maps to an
  infinity or to NaN from finite operands (division by zero, the square root of a
  negative number) is \<open>NaN\<close> here. NaN propagates through every arithmetic operation
  and every comparison with NaN is false, as in IEEE 754.
\<close>

datatype double = NaN | Fin real

definition isnan :: "double \<Rightarrow> bool" where
  "isnan x = (x = NaN)"

instantiation double :: "{zero, one, plus, minus, uminus, times, inverse, ord}"
begin

definition zero_double :: double where
  "zero_double = Fin 0"

definition one_double :: double where
  "one_double = Fin 1"

definition plus_double :: "double \<Rightarrow> double \<Rightarrow> double" where
  "plus_double a b = (case a of NaN \<Rightarrow> NaN | Fin x \<Rightarrow> (case b of NaN \<Rightarrow> NaN | Fin y \<Rightarrow> Fin (x + y)))"

definition minus_double :: "double \<Rightarrow> double \<Rightarrow> double" where
  "minus_double a b = (case a of NaN \<Rightarrow> NaN | Fin x \<Rightarrow> (case b of NaN \<Rightarrow> NaN | Fin y \<Rightarrow> Fin (x - y)))"

definition uminus_double :: "double \<Rightarrow> double" where
  "uminus_double a = (case a of NaN \<Rightarrow> NaN | Fin x \<Rightarrow> Fin (- x))"

definition times_double :: "double \<Rightarrow> double \<Rightarrow> double" where
  "times_double a b = (case a of NaN \<Rightarrow> NaN | Fin x \<Rightarrow> (case b of NaN \<Rightarrow> NaN | Fin y \<Rightarrow> Fin (x * y)))"

definition divide_double :: "double \<Rightarrow> double \<Rightarrow> double" where
  "divide_double a b =
     (case a of NaN \<Rightarrow> NaN
      | Fin x \<Rightarrow> (case b of NaN \<Rightarrow> NaN | Fin y \<Rightarrow> if y = 0 then NaN else Fin (x / y)))"

definition inverse_double :: "double \<Rightarrow> double" where
  "inverse_double a = (case a of NaN \<Rightarrow> NaN | Fin y \<Rightarrow> if y = 0 then NaN else Fin (1 / y))"

definition less_double :: "double \<Rightarrow> double \<Rightarrow> bool" where
  "less_double a b = (case a of NaN \<Rightarrow> False | Fin x \<Rightarrow> (case b of NaN \<Rightarrow> False | Fin y \<Rightarrow> x < y))"

definition less_eq_double :: "double \<Rightarrow> double \<Rightarrow> bool" where
  "less_eq_double a b = (case a of NaN \<Rightarrow> False | Fin x \<Rightarrow> (case b of NaN \<Rightarrow> False | Fin y \<Rightarrow> x \<le> y))"

instance ..

end

text \<open>\<^verbatim>\<open>std::sqrt\<close>, \<^verbatim>\<open>std::sin\<close>, \<^verbatim>\<open>M_PI\<close> and \<^verbatim>\<open>std::min\<close> (which returns its
  first argument unless the second is less).\<close>

definition std_sqrt :: "double \<Rightarrow> double" where
  "std_sqrt a = (case a of NaN \<Rightarrow> NaN | Fin x \<Rightarrow> if x < 0 then NaN else Fin (sqrt x))"

definition std_sin :: "double \<Rightarrow> double" where
  "std_sin a = (case a of NaN \<Rightarrow> NaN | Fin x \<Rightarrow> Fin (sin x))"

definition M_PI :: double where
  "M_PI = Fin pi"

definition std_min :: "double \<Rightarrow> double \<Rightarrow> double" where
  "std_min a b = (if b < a then b else a)"

text \<open>The sum of the coefficients of a vector, from zero.\<close>

definition sum_coeffs :: "double list \<Rightarrow> double" where
  "sum_coeffs xs = foldl (+) 0 xs"

text \<open>\<^verbatim>\<open>Eigen::Vector3d\<close> (and every \<^verbatim>\<open>VectorXd\<close> of the program, all of size 3),
  \<^verbatim>\<open>Vector4d\<close>, \<^verbatim>\<open>Matrix3d\<close> and \<^verbatim>\<open>Matrix4d\<close> (by rows).\<close>

datatype vec3 = Vec3 double double double

datatype vec4 = Vec4 double double double double

datatype mat3 = Mat3 vec3 vec3 vec3

datatype mat4 = Mat4 vec4 vec4 vec4 vec4

fun coeff :: "vec3 \<Rightarrow> nat \<Rightarrow> double" where
  "coeff (Vec3 x y z) i = (if i = 0 then x else if i = 1 then y else z)"

instantiation vec3 :: "{zero, plus, minus, uminus}"
begin

definition zero_vec3 :: vec3 where
  "zero_vec3 = Vec3 0 0 0"

fun plus_vec3 :: "vec3 \<Rightarrow> vec3 \<Rightarrow> vec3" where
  "plus_vec3 (Vec3 x y z) (Vec3 x' y' z') = Vec3 (x + x') (y + y') (z + z')"

fun minus_vec3 :: "vec3 \<Rightarrow> vec3 \<Rightarrow> vec3" where
  "minus_vec3 (Vec3 x y z) (Vec3 x' y' z') = Vec3 (x - x') (y - y') (z - z')"

fun uminus_vec3 :: "vec3 \<Rightarrow> vec3" where
  "uminus_vec3 (Vec3 x y z) = Vec3 (- x) (- y) (- z)"

instance ..

end

text \<open>Scalar multiple, division by a scalar, dot product, norms.\<close>

fun scale :: "double \<Rightarrow> vec3 \<Rightarrow> vec3" where
  "scale c (Vec3 x y z) = Vec3 (c * x) (c * y) (c * z)"

fun scale_right :: "vec3 \<Rightarrow> double \<Rightarrow> vec3" where
  "scale_right (Vec3 x y z) c = Vec3 (x * c) (y * c) (z * c)"

fun divide_by :: "vec3 \<Rightarrow> double \<Rightarrow> vec3" where
  "divide_by (Vec3 x y z) c = Vec3 (x / c) (y / c) (z / c)"

fun dot :: "vec3 \<Rightarrow> vec3 \<Rightarrow> double" where
  "dot (Vec3 x y z) (Vec3 x' y' z') = x * x' + y * y' + z * z'"

definition squaredNorm :: "vec3 \<Rightarrow> double" where
  "squaredNorm v = dot v v"

definition norm3 :: "vec3 \<Rightarrow> double" where
  "norm3 v = std_sqrt (squaredNorm v)"

definition has_nan :: "vec3 \<Rightarrow> bool" where
  "has_nan v = (isnan (coeff v 0) \<or> isnan (coeff v 1) \<or> isnan (coeff v 2))"

text \<open>
  \<^verbatim>\<open>normalize()\<close> of Eigen 3.3 and later (the library is not part of the sources):
  \<^verbatim>\<open>z = squaredNorm(); if (z > 0) derived() /= sqrt(z);\<close>. A vector of squared norm
  zero is left as it is.
\<close>

definition normalize :: "vec3 \<Rightarrow> vec3" where
  "normalize v = (let z = squaredNorm v in if 0 < z then divide_by v (std_sqrt z) else v)"

fun mul_mat3_vec3 :: "mat3 \<Rightarrow> vec3 \<Rightarrow> vec3" where
  "mul_mat3_vec3 (Mat3 r0 r1 r2) v = Vec3 (dot r0 v) (dot r1 v) (dot r2 v)"

fun transpose3 :: "mat3 \<Rightarrow> mat3" where
  "transpose3 (Mat3 (Vec3 a b c) (Vec3 d e f) (Vec3 g h i)) =
     Mat3 (Vec3 a d g) (Vec3 b e h) (Vec3 c f i)"

definition mul_mat3_mat3 :: "mat3 \<Rightarrow> mat3 \<Rightarrow> mat3" where
  "mul_mat3_mat3 A B =
     (case transpose3 B of Mat3 c0 c1 c2 \<Rightarrow>
        (case A of Mat3 r0 r1 r2 \<Rightarrow>
           Mat3 (Vec3 (dot r0 c0) (dot r0 c1) (dot r0 c2))
                (Vec3 (dot r1 c0) (dot r1 c1) (dot r1 c2))
                (Vec3 (dot r2 c0) (dot r2 c1) (dot r2 c2))))"

fun dot4 :: "vec4 \<Rightarrow> vec4 \<Rightarrow> double" where
  "dot4 (Vec4 x y z w) (Vec4 x' y' z' w') = x * x' + y * y' + z * z' + w * w'"

fun mul_mat4_vec4 :: "mat4 \<Rightarrow> vec4 \<Rightarrow> vec4" where
  "mul_mat4_vec4 (Mat4 r0 r1 r2 r3) v = Vec4 (dot4 r0 v) (dot4 r1 v) (dot4 r2 v) (dot4 r3 v)"

text \<open>\<^verbatim>\<open>topLeftCorner<3,1>()\<close> of a 4-vector and \<^verbatim>\<open>topLeftCorner<3,3>()\<close> of a 4x4
  matrix.\<close>

fun topLeftCorner31 :: "vec4 \<Rightarrow> vec3" where
  "topLeftCorner31 (Vec4 x y z w) = Vec3 x y z"

fun topLeftCorner33 :: "mat4 \<Rightarrow> mat3" where
  "topLeftCorner33 (Mat4 r0 r1 r2 r3) = Mat3 (topLeftCorner31 r0) (topLeftCorner31 r1) (topLeftCorner31 r2)"

text \<open>
  \<^verbatim>\<open>Eigen::Quaterniond(w, x, y, z).toRotationMatrix()\<close>, as the library computes it
  (no normalisation of the quaternion).
\<close>

datatype quaternion = Quaternion double double double double

fun toRotationMatrix :: "quaternion \<Rightarrow> mat3" where
  "toRotationMatrix (Quaternion w x y z) =
     (let tx = Fin 2 * x; ty = Fin 2 * y; tz = Fin 2 * z;
          twx = tx * w; twy = ty * w; twz = tz * w;
          txx = tx * x; txy = ty * x; txz = tz * x;
          tyy = ty * y; tyz = tz * y; tzz = tz * z
      in Mat3 (Vec3 (Fin 1 - (tyy + tzz)) (txy - twz) (txz + twy))
              (Vec3 (txy + twz) (Fin 1 - (txx + tzz)) (tyz - twx))
              (Vec3 (txz - twy) (tyz + twx) (Fin 1 - (txx + tyy))))"

section \<open>The robot object of \<^verbatim>\<open>quadruped.cpp\<close>\<close>

text \<open>
  The class \<^verbatim>\<open>QuadLeg\<close>, the header \<^verbatim>\<open>quadruped.hpp\<close> and the HEBI and Eigen
  libraries are not part of the sources. What the methods of \<^verbatim>\<open>quadruped.cpp\<close> use
  of a leg is a field of the record below: its base frame (as \<^verbatim>\<open>getBaseFrame()\<close> and
  as \<^verbatim>\<open>getKinematics().getBaseFrame()\<close> return it), its latest joint angles, and
  its inverse kinematics, forward kinematics (the end-effector frame) and torque
  computation as functions of their arguments.
\<close>

record QuadLeg =
  getBaseFrame :: mat4
  getKinematicsBaseFrame :: mat4
  getJointAngle :: vec3
  computeIK :: "vec3 \<Rightarrow> vec3"
  getFK_EndEffector :: "vec3 \<Rightarrow> mat4"
  computeCompensateTorques :: "vec3 \<Rightarrow> vec3 \<Rightarrow> vec3 \<Rightarrow> vec3 \<Rightarrow> vec3"

text \<open>One entry of the group command: each field is set or not.\<close>

record command =
  position :: "double option"
  velocity :: "double option"
  effort :: "double option"

type_synonym GroupCommand = "nat \<Rightarrow> command"

text \<open>
  What \<^verbatim>\<open>Trajectory::createUnconstrainedQp\<close> is given: the waypoint times and one
  column of positions, velocities and accelerations per waypoint. The library that
  fits and samples the curve is not part of the sources: a trajectory is the waypoints
  it was built from, and sampling (\<^verbatim>\<open>getState\<close>: angles, velocities, accelerations
  at a time) is a parameter of the methods that sample.
\<close>

record trajectory =
  times :: "double list"
  positions :: "vec3 list"
  velocities :: "vec3 list"
  accelerations :: "vec3 list"

type_synonym sampler = "trajectory \<Rightarrow> double \<Rightarrow> vec3 \<times> vec3 \<times> vec3"

text \<open>
  The members of \<^verbatim>\<open>Quadruped\<close> that the methods below read or write (a member
  \<^verbatim>\<open>name_\<close> of the class is the field \<open>name\<close>). The legs and
  the command are indexed by leg and by module index; the constructor creates six
  legs and the group has three modules per leg. \<open>sent_commands\<close> is the sequence of
  command frames handed to \<^verbatim>\<open>group_->sendCommand\<close>.
\<close>

record Quadruped =
  legs :: "nat \<Rightarrow> QuadLeg"
  gravity_direction :: vec3
  weight :: double
  cmd :: GroupCommand
  startup_trajectories :: "trajectory list"
  swing_trajectories :: "trajectory list"
  stance_trajectories :: "trajectory list"
  is_exec_traj :: bool
  sent_commands :: "GroupCommand list"

text \<open>
  Modelled from the spec: the constants \<^verbatim>\<open>num_legs_\<close> and
  \<^verbatim>\<open>num_joints_per_leg_\<close> of the absent header. A leg has an identity index
  0..5 and a kinematic chain of 3 joints (base, shoulder, elbow); the constructor
  creates six legs and \<^verbatim>\<open>computeFootForces\<close> loops over six.
\<close>

definition num_legs :: nat where
  "num_legs = 6"

definition num_joints_per_leg :: nat where
  "num_joints_per_leg = 3"

definition sendCommand :: "Quadruped \<Rightarrow> Quadruped" where
  "sendCommand q = q\<lparr>sent_commands := sent_commands q @ [cmd q]\<rparr>"

definition set_position :: "nat \<Rightarrow> double \<Rightarrow> GroupCommand \<Rightarrow> GroupCommand" where
  "set_position k v cmds = cmds(k := (cmds k)\<lparr>position := Some v\<rparr>)"

definition set_velocity :: "nat \<Rightarrow> double \<Rightarrow> GroupCommand \<Rightarrow> GroupCommand" where
  "set_velocity k v cmds = cmds(k := (cmds k)\<lparr>velocity := Some v\<rparr>)"

definition set_effort :: "nat \<Rightarrow> double \<Rightarrow> GroupCommand \<Rightarrow> GroupCommand" where
  "set_effort k v cmds = cmds(k := (cmds k)\<lparr>effort := Some v\<rparr>)"

text \<open>The three statements that set the positions (efforts) of one leg's modules.\<close>

definition set_leg_positions :: "nat \<Rightarrow> vec3 \<Rightarrow> GroupCommand \<Rightarrow> GroupCommand" where
  "set_leg_positions leg_offset v cmds =
     set_position (leg_offset + 2) (coeff v 2)
       (set_position (leg_offset + 1) (coeff v 1)
         (set_position (leg_offset + 0) (coeff v 0) cmds))"

definition set_leg_efforts :: "nat \<Rightarrow> vec3 \<Rightarrow> GroupCommand \<Rightarrow> GroupCommand" where
  "set_leg_efforts leg_offset v cmds =
     set_effort (leg_offset + 2) (coeff v 2)
       (set_effort (leg_offset + 1) (coeff v 1)
         (set_effort (leg_offset + 0) (coeff v 0) cmds))"

definition set_leg_velocities :: "nat \<Rightarrow> vec3 \<Rightarrow> GroupCommand \<Rightarrow> GroupCommand" where
  "set_leg_velocities leg_offset v cmds =
     set_velocity (leg_offset + 2) (coeff v 2)
       (set_velocity (leg_offset + 1) (coeff v 1)
         (set_velocity (leg_offset + 0) (coeff v 0) cmds))"

text \<open>\<^verbatim>\<open>setCommand\<close>: a null pointer argument is \<open>None\<close>.\<close>

definition setCommand :: "nat \<Rightarrow> vec3 option \<Rightarrow> vec3 option \<Rightarrow> vec3 option \<Rightarrow> GroupCommand \<Rightarrow> GroupCommand" where
  "setCommand index angles vels torques cmds =
     (let leg_offset = index * num_joints_per_leg;
          cmds = (case angles of None \<Rightarrow> cmds | Some a \<Rightarrow> set_leg_positions leg_offset a cmds);
          cmds = (case vels of None \<Rightarrow> cmds | Some v \<Rightarrow> set_leg_velocities leg_offset v cmds)
      in (case torques of None \<Rightarrow> cmds | Some t \<Rightarrow> set_leg_efforts leg_offset t cmds))"

text \<open>The expression \<^verbatim>\<open>(base_frame * tmp4).topLeftCorner<3,1>()\<close>.\<close>

definition home_stance_xyz :: "mat4 \<Rightarrow> vec4 \<Rightarrow> vec3" where
  "home_stance_xyz base_frame tmp4 = topLeftCorner31 (mul_mat4_vec4 base_frame tmp4)"

subsection \<open>The feedback handler\<close>

text \<open>
  Per module, the feedback carries the IMU orientation (all four components NaN when
  the module reports none) and the actuator position, present or absent. The handler's
  update of the complementary filter (off unless \<^verbatim>\<open>updateIMUFilter\<close> is set) and its
  timestamps write only the filter and the timestamps, which no method below reads; they
  are left out.
\<close>

record module_feedback =
  imu_orientation :: quaternion
  actuator_position :: "double option"

type_synonym GroupFeedback = "nat \<Rightarrow> module_feedback"

definition down :: vec3 where
  "down = Vec3 (Fin 0) (Fin 0) (Fin (- 1))"

definition my_grav :: "Quadruped \<Rightarrow> GroupFeedback \<Rightarrow> nat \<Rightarrow> vec3" where
  "my_grav q fbk i =
     (let mod_orientation_mat = toRotationMatrix (imu_orientation (fbk (i * num_joints_per_leg)));
          trans = getKinematicsBaseFrame (legs q i)
      in mul_mat3_vec3 (mul_mat3_mat3 (topLeftCorner33 trans) (transpose3 mod_orientation_mat)) down)"

definition fuse_gravity :: "Quadruped \<Rightarrow> GroupFeedback \<Rightarrow> vec3" where
  "fuse_gravity q fbk =
     normalize
       (fold (\<lambda>i avg_grav.
                let g = my_grav q fbk i in
                if \<not> isnan (coeff g 0) \<and> \<not> isnan (coeff g 1) \<and> \<not> isnan (coeff g 2)
                then avg_grav + g else avg_grav)
          [0..<num_legs] 0)"

definition pos_vec :: "GroupFeedback \<Rightarrow> nat \<Rightarrow> vec3" where
  "pos_vec fbk i =
     (let pos = (\<lambda>j. case actuator_position (fbk (i * num_joints_per_leg + j)) of
                       Some p \<Rightarrow> p | None \<Rightarrow> NaN)
      in Vec3 (pos 0) (pos 1) (pos 2))"

definition feedback_handler :: "GroupFeedback \<Rightarrow> Quadruped \<Rightarrow> Quadruped" where
  "feedback_handler fbk q =
     q\<lparr>gravity_direction := fuse_gravity q fbk,
       legs := (\<lambda>i. if i < num_legs then (legs q i)\<lparr>getJointAngle := pos_vec fbk i\<rparr>
                      else legs q i)\<rparr>"

definition getGravityDirection :: "Quadruped \<Rightarrow> vec3" where
  "getGravityDirection q = gravity_direction q"

definition getLegJointAngles :: "Quadruped \<Rightarrow> nat \<Rightarrow> vec3" where
  "getLegJointAngles q index = getJointAngle (legs q index)"

subsection \<open>Stand-up trajectories\<close>

definition nan_column :: vec3 where
  "nan_column = Vec3 NaN NaN NaN"

text \<open>
  The trajectory \<^verbatim>\<open>planStandUpTraj\<close> builds for leg \<open>i\<close>, and the method, which
  appends the six trajectories to \<^verbatim>\<open>startup_trajectories\<close>. (It is declared to
  return \<^verbatim>\<open>bool\<close> but has no return statement, as has \<^verbatim>\<open>execStandUpTraj\<close>: the
  model gives the updated object only.)
\<close>

definition standUpTraj :: "Quadruped \<Rightarrow> double \<Rightarrow> nat \<Rightarrow> trajectory" where
  "standUpTraj q duration_time i =
     (let leg_start = getLegJointAngles q i;
          base_frame = getBaseFrame (legs q i);
          tmp4 = Vec4 (Fin 0.45) (Fin 0) (Fin (- 0.28)) (Fin 0);
          home_stance = home_stance_xyz base_frame tmp4;
          leg_end = computeIK (legs q i) home_stance;
          leg_mid = Vec3 (coeff leg_end 0) (coeff leg_end 1 - Fin 0.3) (coeff leg_end 2 - Fin 0.15);
          step_first = (i = 0 \<or> i = 3 \<or> i = 4)
      in \<lparr>times = [Fin 0,
                    Fin 0 + duration_time * Fin 0.25,
                    Fin 0 + duration_time * Fin 0.5,
                    Fin 0 + duration_time * Fin 0.75,
                    Fin 0 + duration_time],
          positions = [leg_start,
                       if step_first then leg_mid else leg_start,
                       if step_first then leg_end else leg_start,
                       if step_first then leg_end else leg_mid,
                       leg_end],
          velocities = [0, nan_column, 0, nan_column, 0],
          accelerations = [0, nan_column, 0, nan_column, 0]\<rparr>)"

definition planStandUpTraj :: "double \<Rightarrow> Quadruped \<Rightarrow> Quadruped" where
  "planStandUpTraj duration_time q =
     fold (\<lambda>i q. q\<lparr>startup_trajectories := startup_trajectories q @ [standUpTraj q duration_time i]\<rparr>)
       [0..<num_legs] q"

subsection \<open>Foot forces\<close>

text \<open>\<^verbatim>\<open>computeFootForces\<close>: the six columns of \<^verbatim>\<open>foot_forces\<close>.\<close>

definition leverage :: "Quadruped \<Rightarrow> nat \<Rightarrow> double" where
  "leverage q i =
     (let grav = - gravity_direction q;
          base_frame = getBaseFrame (legs q i);
          tmp4 = Vec4 (Fin 0.45) (Fin 0) (Fin (- 0.28)) (Fin 0);
          stance = home_stance_xyz base_frame tmp4;
          dot_prod = dot grav stance
      in norm3 (scale_right grav dot_prod - stance))"

definition computeFootForces :: "Quadruped \<Rightarrow> vec3 list" where
  "computeFootForces q =
     (let grav = - gravity_direction q;
          factors = map (leverage q) [0..<6];
          fact_sum = sum_coeffs factors;
          factors = map (\<lambda>f. fact_sum / f) factors;
          blend_factors = map (\<lambda>i. Fin 1) [0..<6];
          fact_sum = sum_coeffs factors;
          factors = map (\<lambda>f. f / fact_sum) factors;
          factors = map (\<lambda>(f, b). f * (Fin 1 + Fin 0.33 * std_sin (M_PI * b))) (zip factors blend_factors)
      in map (\<lambda>f. scale (f * weight q) grav) factors)"

text \<open>
  \<^verbatim>\<open>execStandUpTraj\<close>. The float literal \<^verbatim>\<open>9.8f\<close> is the single-precision number
  nearest to 9.8. \<open>None\<close> is an index past the end of \<^verbatim>\<open>startup_trajectories\<close>
  (undefined behaviour in C++).
\<close>

definition float_9_8 :: double where
  "float_9_8 = Fin (10276045 / 1048576)"

definition ramp_up_scale :: "double \<Rightarrow> double" where
  "ramp_up_scale curr_time = std_min (Fin 1.0) (curr_time + Fin 0.001 / Fin 2.0)"

definition execStandUpTraj_foot_force :: "Quadruped \<Rightarrow> double \<Rightarrow> nat \<Rightarrow> vec3" where
  "execStandUpTraj_foot_force q curr_time i =
     (let foot_forces = computeFootForces q;
          foot_forces = map (\<lambda>f. scale_right f (ramp_up_scale curr_time)) foot_forces
      in foot_forces ! i)"

definition execStandUpTraj :: "sampler \<Rightarrow> double \<Rightarrow> Quadruped \<Rightarrow> Quadruped option" where
  "execStandUpTraj getState curr_time q =
     (if length (startup_trajectories q) < num_legs then None
      else Some (sendCommand (q\<lparr>cmd :=
        fold (\<lambda>i cmds.
                (case getState (startup_trajectories q ! i) curr_time of (angles, vels, a) \<Rightarrow>
                   let gravity_vec = scale_right (getGravityDirection q) float_9_8;
                       foot_force = execStandUpTraj_foot_force q curr_time i;
                       torques = computeCompensateTorques (legs q i) angles vels gravity_vec foot_force
                   in setCommand i (Some angles) (Some vels) (Some torques) cmds))
          [0..<num_legs] (cmd q)\<rparr>)))"

subsection \<open>Spreading the legs\<close>

text \<open>
  \<^verbatim>\<open>spreadAllLegs\<close>. The variable \<^verbatim>\<open>goal\<close> is declared once, before the first loop,
  and every pass of that loop stores its leg's IK solution in it; its initial (empty)
  value is never read and is the NaN vector here.
\<close>

definition spreadAllLegs_goal_cmd :: "Quadruped \<Rightarrow> vec3 \<times> GroupCommand" where
  "spreadAllLegs_goal_cmd q =
     fold (\<lambda>i (goal, cmds).
             let base_frame = getBaseFrame (legs q i);
                 tmp4 = Vec4 (Fin 0.55) (Fin 0) (Fin 0.05) (Fin 0);
                 home_stance = home_stance_xyz base_frame tmp4;
                 goal = computeIK (legs q i) home_stance;
                 leg_offset = i * num_joints_per_leg
             in (goal, set_leg_positions leg_offset goal cmds))
       [0..<num_legs] (nan_column, cmd q)"

definition spreadAllLegs :: "Quadruped \<Rightarrow> bool \<times> Quadruped" where
  "spreadAllLegs q =
     (case spreadAllLegs_goal_cmd q of (goal, cmds) \<Rightarrow>
        let isReaching =
              fold (\<lambda>i isReaching.
                      let curr_angle = getJointAngle (legs q i);
                          differece = goal - curr_angle
                      in if Fin 0.5 < norm3 differece then False else isReaching)
                [0..<num_legs] True
        in (isReaching, sendCommand (q\<lparr>is_exec_traj := True, cmd := cmds\<rparr>)))"

subsection \<open>The open-loop trot\<close>













section \<open>Reading a command frame\<close>



section \<open>Example inputs\<close>

definition identity_frame :: mat4 where
  "identity_frame =
     Mat4 (Vec4 (Fin 1) (Fin 0) (Fin 0) (Fin 0)) (Vec4 (Fin 0) (Fin 1) (Fin 0) (Fin 0))
          (Vec4 (Fin 0) (Fin 0) (Fin 1) (Fin 0)) (Vec4 (Fin 0) (Fin 0) (Fin 0) (Fin 1))"

text \<open>A leg at the origin whose inverse kinematics returns the target itself.\<close>

definition example_leg :: "vec3 \<Rightarrow> QuadLeg" where
  "example_leg angles =
     \<lparr>getBaseFrame = identity_frame, getKinematicsBaseFrame = identity_frame,
      getJointAngle = angles, computeIK = (\<lambda>xyz. xyz),
      getFK_EndEffector = (\<lambda>a. identity_frame),
      computeCompensateTorques = (\<lambda>a v g f. f)\<rparr>"

definition no_command :: command where
  "no_command = \<lparr>position = None, velocity = None, effort = None\<rparr>"

text \<open>Six such legs, all at the spread pose of \<^verbatim>\<open>spreadAllLegs\<close>, gravity along -z.\<close>

definition example_quadruped :: Quadruped where
  "example_quadruped =
     \<lparr>legs = (\<lambda>i. example_leg (Vec3 (Fin 0.55) (Fin 0) (Fin 0.05))),
      gravity_direction = Vec3 (Fin 0) (Fin 0) (Fin (- 1)),
      weight = Fin 20,
      cmd = (\<lambda>k. no_command),
      startup_trajectories = [], swing_trajectories = [], stance_trajectories = [],
      is_exec_traj = False, sent_commands = []\<rparr>"

text \<open>A feedback frame in which legs 0 and 2 report no orientation and the others
  the identity orientation.\<close>

definition partial_feedback :: GroupFeedback where
  "partial_feedback =
     (\<lambda>k. \<lparr>imu_orientation = (if k = 0 \<or> k = 6 then Quaternion NaN NaN NaN NaN
                                else Quaternion (Fin 1) (Fin 0) (Fin 0) (Fin 0)),
           actuator_position = None\<rparr>)"


text \<open>A feedback frame in which no module reports an orientation.\<close>

definition nan_feedback :: GroupFeedback where
  "nan_feedback = (\<lambda>k. \<lparr>imu_orientation = Quaternion NaN NaN NaN NaN, actuator_position = None\<rparr>)"

section \<open>Properties of the control loops\<close>

lemmas dw_states = QUAD_CTRL_STAND_UP1_def QUAD_CTRL_STAND_UP2_def QUAD_DYNAMIC_WALK_def CTRL_STATES_COUNT_def

lemma dynamicWalk_run_const:
  assumes "\<forall>inp \<in> set inps. dynamicWalk_tick inp s = Some (s, f inp)"
  shows "dynamicWalk_run s (inps @ rest) = map (\<lambda>inp. (s, f inp)) inps @ dynamicWalk_run s rest"
  using assms by (induction inps) simp_all

lemma tick_stand_up1_stay:
  assumes "\<not> quit_button inp" "cur_ctrl_state s = QUAD_CTRL_STAND_UP1"
    "clock_curr inp - state_enter_time s < startup_seconds"
  shows "dynamicWalk_tick inp s = Some (s, [SpreadAllLegs])"
  using assms by (simp add: dynamicWalk_tick_def)

lemma tick_stand_up1_leave:
  assumes "\<not> quit_button inp" "cur_ctrl_state s = QUAD_CTRL_STAND_UP1"
    "clock_curr inp - state_enter_time s \<ge> startup_seconds"
  shows "dynamicWalk_tick inp s =
    Some (s\<lparr>cur_ctrl_state := QUAD_CTRL_STAND_UP2, state_enter_time := clock_enter inp\<rparr>, [SpreadAllLegs])"
  using assms by (simp add: dynamicWalk_tick_def)

lemma tick_stand_up2_stay:
  assumes "\<not> quit_button inp" "cur_ctrl_state s = QUAD_CTRL_STAND_UP2"
    "clock_curr inp - state_enter_time s < startup_seconds"
  shows "dynamicWalk_tick inp s = Some (s, [PushAllLegs (clock_curr inp - state_enter_time s) startup_seconds])"
  using assms by (simp add: dynamicWalk_tick_def dw_states)

lemma tick_stand_up2_leave:
  assumes "\<not> quit_button inp" "cur_ctrl_state s = QUAD_CTRL_STAND_UP2"
    "clock_curr inp - state_enter_time s \<ge> startup_seconds"
  shows "dynamicWalk_tick inp s =
    Some (s\<lparr>cur_ctrl_state := QUAD_DYNAMIC_WALK, first_time_enter := True, state_enter_time := clock_enter inp\<rparr>,
      [PushAllLegs (clock_curr inp - state_enter_time s) startup_seconds, StartBodyRUpdate])"
  using assms by (simp add: dynamicWalk_tick_def dw_states)

lemma tick_walk_boundary:
  assumes "\<not> quit_button inp" "cur_ctrl_state s = QUAD_DYNAMIC_WALK"
    "clock_curr inp - state_enter_time s \<ge> getTotalTime inp"
  shows "dynamicWalk_tick inp s =
    Some (s\<lparr>state_enter_time := clock_enter inp, first_time_enter := True\<rparr>, [])"
  using assms by (simp add: dynamicWalk_tick_def dw_states)

lemma tick_walk_first:
  assumes "\<not> quit_button inp" "cur_ctrl_state s = QUAD_DYNAMIC_WALK"
    "clock_curr inp - state_enter_time s < getTotalTime inp" "first_time_enter s"
  shows "dynamicWalk_tick inp s =
    Some (s\<lparr>first_time_enter := False\<rparr>, [PlanDynamicGait, FollowDynamicGait (clock_curr inp - state_enter_time s)])"
  using assms by (simp add: dynamicWalk_tick_def dw_states)

lemma tick_walk_later:
  assumes "\<not> quit_button inp" "cur_ctrl_state s = QUAD_DYNAMIC_WALK"
    "clock_curr inp - state_enter_time s < getTotalTime inp" "\<not> first_time_enter s"
  shows "dynamicWalk_tick inp s =
    Some (s, [FollowDynamicGait (clock_curr inp - state_enter_time s)])"
  using assms by (simp add: dynamicWalk_tick_def dw_states)

lemma dynamicWalk_run_startup:
  assumes no_quit: "\<forall>inp \<in> set (ts1 @ [t1] @ ts2 @ [t2] @ w # ws). \<not> quit_button inp"
    and up1: "\<forall>inp \<in> set ts1. clock_curr inp - e0 < 1.9"
    and t1: "clock_curr t1 - e0 \<ge> 1.9"
    and up2: "\<forall>inp \<in> set ts2. clock_curr inp - clock_enter t1 < 1.9"
    and t2: "clock_curr t2 - clock_enter t1 \<ge> 1.9"
    and walk: "\<forall>inp \<in> set (w # ws). clock_curr inp - clock_enter t2 < getTotalTime inp"
  shows "dynamicWalk_run (dynamicWalk_init e0) (ts1 @ [t1] @ ts2 @ [t2] @ w # ws) =
     map (\<lambda>inp. (dynamicWalk_init e0, [SpreadAllLegs])) ts1 @
     [(\<lparr>cur_ctrl_state = QUAD_CTRL_STAND_UP2, state_enter_time = clock_enter t1, first_time_enter = False\<rparr>,
       [SpreadAllLegs])] @
     map (\<lambda>inp. (\<lparr>cur_ctrl_state = QUAD_CTRL_STAND_UP2, state_enter_time = clock_enter t1, first_time_enter = False\<rparr>,
       [PushAllLegs (clock_curr inp - clock_enter t1) 1.9])) ts2 @
     [(\<lparr>cur_ctrl_state = QUAD_DYNAMIC_WALK, state_enter_time = clock_enter t2, first_time_enter = True\<rparr>,
       [PushAllLegs (clock_curr t2 - clock_enter t1) 1.9, StartBodyRUpdate])] @
     [(\<lparr>cur_ctrl_state = QUAD_DYNAMIC_WALK, state_enter_time = clock_enter t2, first_time_enter = False\<rparr>,
       [PlanDynamicGait, FollowDynamicGait (clock_curr w - clock_enter t2)])] @
     map (\<lambda>inp. (\<lparr>cur_ctrl_state = QUAD_DYNAMIC_WALK, state_enter_time = clock_enter t2, first_time_enter = False\<rparr>,
       [FollowDynamicGait (clock_curr inp - clock_enter t2)])) ws"
proof -
  let ?s0 = "dynamicWalk_init e0"
  let ?s1 = "\<lparr>cur_ctrl_state = QUAD_CTRL_STAND_UP2, state_enter_time = clock_enter t1, first_time_enter = False\<rparr>"
  let ?s2 = "\<lparr>cur_ctrl_state = QUAD_DYNAMIC_WALK, state_enter_time = clock_enter t2, first_time_enter = True\<rparr>"
  let ?s3 = "\<lparr>cur_ctrl_state = QUAD_DYNAMIC_WALK, state_enter_time = clock_enter t2, first_time_enter = False\<rparr>"
  have A: "dynamicWalk_run ?s0 (ts1 @ ([t1] @ ts2 @ [t2] @ w # ws)) =
      map (\<lambda>inp. (?s0, [SpreadAllLegs])) ts1 @ dynamicWalk_run ?s0 ([t1] @ ts2 @ [t2] @ w # ws)"
    using no_quit up1
    by (intro dynamicWalk_run_const ballI tick_stand_up1_stay)
       (auto simp: dynamicWalk_init_def startup_seconds_def)
  have B: "dynamicWalk_tick t1 ?s0 = Some (?s1, [SpreadAllLegs])"
    using no_quit t1 tick_stand_up1_leave [of t1 ?s0]
    by (simp add: dynamicWalk_init_def startup_seconds_def)
  have C: "dynamicWalk_run ?s1 (ts2 @ ([t2] @ w # ws)) =
      map (\<lambda>inp. (?s1, [PushAllLegs (clock_curr inp - clock_enter t1) 1.9])) ts2 @
      dynamicWalk_run ?s1 ([t2] @ w # ws)"
  proof (rule dynamicWalk_run_const, rule ballI)
    fix inp assume "inp \<in> set ts2"
    with no_quit up2 tick_stand_up2_stay [of inp ?s1]
    show "dynamicWalk_tick inp ?s1 = Some (?s1, [PushAllLegs (clock_curr inp - clock_enter t1) 1.9])"
      by (simp add: startup_seconds_def)
  qed
  have D: "dynamicWalk_tick t2 ?s1 =
      Some (?s2, [PushAllLegs (clock_curr t2 - clock_enter t1) 1.9, StartBodyRUpdate])"
    using no_quit t2 tick_stand_up2_leave [of t2 ?s1] by (simp add: startup_seconds_def)
  have E: "dynamicWalk_tick w ?s2 =
      Some (?s3, [PlanDynamicGait, FollowDynamicGait (clock_curr w - clock_enter t2)])"
    using no_quit walk tick_walk_first [of w ?s2] by simp
  have F: "dynamicWalk_run ?s3 (ws @ []) =
      map (\<lambda>inp. (?s3, [FollowDynamicGait (clock_curr inp - clock_enter t2)])) ws @
      dynamicWalk_run ?s3 []"
  proof (rule dynamicWalk_run_const, rule ballI)
    fix inp assume "inp \<in> set ws"
    with no_quit walk tick_walk_later [of inp ?s3]
    show "dynamicWalk_tick inp ?s3 = Some (?s3, [FollowDynamicGait (clock_curr inp - clock_enter t2)])"
      by simp
  qed
  show ?thesis
    using A B C D E F by simp
qed

lemma count_list_map_other:
  assumes "\<forall>x \<in> set xs. f x \<noteq> a"
  shows "count_list (map f xs) a = 0"
  using assms by (induction xs) simp_all

text \<open>
  Claim C1. The loop starts in \<open>QUAD_CTRL_STAND_UP1\<close> with \<open>startup_seconds = 1.9\<close>. Over
  passes \<open>ts1\<close> whose time in state is below 1.9 s the state stays
  \<open>QUAD_CTRL_STAND_UP1\<close>; the first pass \<open>t1\<close> whose time in state is at least 1.9 s
  leaves the state \<open>QUAD_CTRL_STAND_UP2\<close>. Time in state is then measured from the clock
  reading taken at that transition: over passes \<open>ts2\<close> below 1.9 s the state stays
  \<open>QUAD_CTRL_STAND_UP2\<close>, and the pass \<open>t2\<close> at 1.9 s or more leaves the state
  \<open>QUAD_DYNAMIC_WALK\<close>. On the passes \<open>w # ws\<close> of the first gait cycle (time in state
  below the gait's total time) \<open>planDynamicGait\<close> is called on the first pass \<open>w\<close> and
  on no later one: it occurs exactly once in the calls of the whole run.
\<close>

theorem stand_up_then_walk_plans_once:
  assumes no_quit: "\<forall>inp \<in> set (ts1 @ [t1] @ ts2 @ [t2] @ w # ws). \<not> quit_button inp"
    and up1: "\<forall>inp \<in> set ts1. clock_curr inp - e0 < 1.9"
    and t1: "clock_curr t1 - e0 \<ge> 1.9"
    and up2: "\<forall>inp \<in> set ts2. clock_curr inp - clock_enter t1 < 1.9"
    and t2: "clock_curr t2 - clock_enter t1 \<ge> 1.9"
    and walk: "\<forall>inp \<in> set (w # ws). clock_curr inp - clock_enter t2 < getTotalTime inp"
  shows "startup_seconds = 1.9 \<and>
     map (\<lambda>r. cur_ctrl_state (fst r))
       (dynamicWalk_run (dynamicWalk_init e0) (ts1 @ [t1] @ ts2 @ [t2] @ w # ws)) =
       replicate (length ts1) QUAD_CTRL_STAND_UP1 @
       replicate (Suc (length ts2)) QUAD_CTRL_STAND_UP2 @
       replicate (Suc (Suc (length ws))) QUAD_DYNAMIC_WALK \<and>
     map snd (dynamicWalk_run (dynamicWalk_init e0) (ts1 @ [t1] @ ts2 @ [t2] @ w # ws)) =
       map (\<lambda>inp. [SpreadAllLegs]) (ts1 @ [t1]) @
       map (\<lambda>inp. [PushAllLegs (clock_curr inp - clock_enter t1) 1.9]) ts2 @
       [[PushAllLegs (clock_curr t2 - clock_enter t1) 1.9, StartBodyRUpdate]] @
       [[PlanDynamicGait, FollowDynamicGait (clock_curr w - clock_enter t2)]] @
       map (\<lambda>inp. [FollowDynamicGait (clock_curr inp - clock_enter t2)]) ws \<and>
     count_list (concat (map snd
       (dynamicWalk_run (dynamicWalk_init e0) (ts1 @ [t1] @ ts2 @ [t2] @ w # ws)))) PlanDynamicGait = 1"
proof -
  note run = dynamicWalk_run_startup [OF assms]
  have states: "map (\<lambda>r. cur_ctrl_state (fst r))
       (dynamicWalk_run (dynamicWalk_init e0) (ts1 @ [t1] @ ts2 @ [t2] @ w # ws)) =
       replicate (length ts1) QUAD_CTRL_STAND_UP1 @
       replicate (Suc (length ts2)) QUAD_CTRL_STAND_UP2 @
       replicate (Suc (Suc (length ws))) QUAD_DYNAMIC_WALK"
    unfolding run
    by (simp add: o_def dynamicWalk_init_def map_replicate_const replicate_append_same)
  have acts: "map snd (dynamicWalk_run (dynamicWalk_init e0) (ts1 @ [t1] @ ts2 @ [t2] @ w # ws)) =
       map (\<lambda>inp. [SpreadAllLegs]) (ts1 @ [t1]) @
       map (\<lambda>inp. [PushAllLegs (clock_curr inp - clock_enter t1) 1.9]) ts2 @
       [[PushAllLegs (clock_curr t2 - clock_enter t1) 1.9, StartBodyRUpdate]] @
       [[PlanDynamicGait, FollowDynamicGait (clock_curr w - clock_enter t2)]] @
       map (\<lambda>inp. [FollowDynamicGait (clock_curr inp - clock_enter t2)]) ws"
    unfolding run by (simp add: o_def)
  have cnt: "count_list (concat (map snd
       (dynamicWalk_run (dynamicWalk_init e0) (ts1 @ [t1] @ ts2 @ [t2] @ w # ws)))) PlanDynamicGait = 1"
    unfolding acts by (simp add: count_list_map_other)
  show ?thesis using states acts cnt by (simp add: startup_seconds_def)
qed

theorem stand_up_then_walk_plans_once_witness:
  "map (\<lambda>r. cur_ctrl_state (fst r))
     (dynamicWalk_run (dynamicWalk_init 0)
        [\<lparr>quit_button = False, clock_curr = 1, clock_enter = 1, getTotalTime = 0.5\<rparr>,
         \<lparr>quit_button = False, clock_curr = 1.9, clock_enter = 1.9, getTotalTime = 0.5\<rparr>,
         \<lparr>quit_button = False, clock_curr = 3, clock_enter = 3, getTotalTime = 0.5\<rparr>,
         \<lparr>quit_button = False, clock_curr = 3.8, clock_enter = 3.8, getTotalTime = 0.5\<rparr>,
         \<lparr>quit_button = False, clock_curr = 3.805, clock_enter = 3.805, getTotalTime = 0.5\<rparr>,
         \<lparr>quit_button = False, clock_curr = 3.81, clock_enter = 3.81, getTotalTime = 0.5\<rparr>]) =
     [QUAD_CTRL_STAND_UP1, QUAD_CTRL_STAND_UP2, QUAD_CTRL_STAND_UP2,
      QUAD_DYNAMIC_WALK, QUAD_DYNAMIC_WALK, QUAD_DYNAMIC_WALK] \<and>
   count_list (concat (map snd
     (dynamicWalk_run (dynamicWalk_init 0)
        [\<lparr>quit_button = False, clock_curr = 1, clock_enter = 1, getTotalTime = 0.5\<rparr>,
         \<lparr>quit_button = False, clock_curr = 1.9, clock_enter = 1.9, getTotalTime = 0.5\<rparr>,
         \<lparr>quit_button = False, clock_curr = 3, clock_enter = 3, getTotalTime = 0.5\<rparr>,
         \<lparr>quit_button = False, clock_curr = 3.8, clock_enter = 3.8, getTotalTime = 0.5\<rparr>,
         \<lparr>quit_button = False, clock_curr = 3.805, clock_enter = 3.805, getTotalTime = 0.5\<rparr>,
         \<lparr>quit_button = False, clock_curr = 3.81, clock_enter = 3.81, getTotalTime = 0.5\<rparr>]))) PlanDynamicGait = 1"
  using stand_up_then_walk_plans_once [of
      "[\<lparr>quit_button = False, clock_curr = 1, clock_enter = 1, getTotalTime = 0.5\<rparr>]"
      "\<lparr>quit_button = False, clock_curr = 1.9, clock_enter = 1.9, getTotalTime = 0.5\<rparr>"
      "[\<lparr>quit_button = False, clock_curr = 3, clock_enter = 3, getTotalTime = 0.5\<rparr>]"
      "\<lparr>quit_button = False, clock_curr = 3.8, clock_enter = 3.8, getTotalTime = 0.5\<rparr>"
      "\<lparr>quit_button = False, clock_curr = 3.805, clock_enter = 3.805, getTotalTime = 0.5\<rparr>"
      "[\<lparr>quit_button = False, clock_curr = 3.81, clock_enter = 3.81, getTotalTime = 0.5\<rparr>]"
      0]
  by simp

text \<open>
  Claim C10. In \<open>QUAD_DYNAMIC_WALK\<close>, a pass whose time in state has reached the gait's
  total time only stores a new state-entry time and sets \<open>first_time_enter\<close>: it calls
  neither \<open>planDynamicGait\<close> nor \<open>followDynamicGait\<close> (no call at all). The plan is made
  on the following pass (whose time in state, measured from the new entry time, is below
  the total time), before that pass follows the gait.
\<close>

theorem walk_cycle_boundary_gap:
  assumes "cur_ctrl_state s = QUAD_DYNAMIC_WALK"
    and "\<not> quit_button inp" and "\<not> quit_button inp'"
    and "clock_curr inp - state_enter_time s \<ge> getTotalTime inp"
    and "clock_curr inp' - clock_enter inp < getTotalTime inp'"
  shows "dynamicWalk_run s [inp, inp'] =
     [(s\<lparr>state_enter_time := clock_enter inp, first_time_enter := True\<rparr>, []),
      (s\<lparr>state_enter_time := clock_enter inp, first_time_enter := False\<rparr>,
       [PlanDynamicGait, FollowDynamicGait (clock_curr inp' - clock_enter inp)])]"
  using assms by (simp add: dynamicWalk_tick_def dw_states)

theorem walk_cycle_boundary_gap_witness:
  "dynamicWalk_run
     \<lparr>cur_ctrl_state = QUAD_DYNAMIC_WALK, state_enter_time = 10, first_time_enter = False\<rparr>
     [\<lparr>quit_button = False, clock_curr = 10.5, clock_enter = 10.5, getTotalTime = 0.5\<rparr>,
      \<lparr>quit_button = False, clock_curr = 10.505, clock_enter = 10.505, getTotalTime = 0.5\<rparr>] =
     [(\<lparr>cur_ctrl_state = QUAD_DYNAMIC_WALK, state_enter_time = 10.5, first_time_enter = True\<rparr>, []),
      (\<lparr>cur_ctrl_state = QUAD_DYNAMIC_WALK, state_enter_time = 10.5, first_time_enter = False\<rparr>,
       [PlanDynamicGait, FollowDynamicGait 0.005])]"
  using walk_cycle_boundary_gap [of
      "\<lparr>cur_ctrl_state = QUAD_DYNAMIC_WALK, state_enter_time = 10, first_time_enter = False\<rparr>"
      "\<lparr>quit_button = False, clock_curr = 10.5, clock_enter = 10.5, getTotalTime = 0.5\<rparr>"
      "\<lparr>quit_button = False, clock_curr = 10.505, clock_enter = 10.505, getTotalTime = 0.5\<rparr>"]
  by simp

lemmas ctl_states = HEXA_CTRL_STAND_UP_PLAN_def HEXA_CTRL_STAND_UP_def QUAD_CTRL_NORMAL_def
  control_CTRL_STATES_COUNT_def

text \<open>
  Claim C4 as stated fails for \<^verbatim>\<open>quadruped_control.cpp\<close>: with the state variable at
  the count sentinel, a pass of its loop calls no method of the robot, so no freeze.
\<close>

theorem control_default_counterexample:
  "control_tick \<lparr>quit_button = False, clock_curr = 1, clock_enter = 1, getTotalTime = 0\<rparr>
     \<lparr>cur_ctrl_state = control_CTRL_STATES_COUNT, state_enter_time = 0, first_time_enter = False\<rparr> =
   (\<lparr>cur_ctrl_state = control_CTRL_STATES_COUNT, state_enter_time = 0, first_time_enter = False\<rparr>, [])"
  by (simp add: control_tick_def ctl_states)

text \<open>
  Claim C4, amended. When the state variable holds the count sentinel or any other value
  that is not one of the three handled states: a pass of the \<^verbatim>\<open>dynamicWalk.cpp\<close> loop
  on which the quit button is not pushed calls \<open>freeze\<close> and nothing else, keeps the
  variables and continues (with the quit button pushed the program terminates, as in
  every state); a pass of the \<^verbatim>\<open>quadruped_control.cpp\<close> loop calls no method of the
  robot (the quit button only asks the GUI to exit), keeps the variables and continues.
\<close>

theorem default_case_of_both_loops:
  assumes "cur_ctrl_state s \<notin> {QUAD_CTRL_STAND_UP1, QUAD_CTRL_STAND_UP2, QUAD_DYNAMIC_WALK}"
    and "cur_ctrl_state s' \<notin> {HEXA_CTRL_STAND_UP_PLAN, HEXA_CTRL_STAND_UP, QUAD_CTRL_NORMAL}"
  shows "dynamicWalk_tick inp s = (if quit_button inp then None else Some (s, [Freeze])) \<and>
     control_tick inp' s' = (s', if quit_button inp' then [AppExit] else [])"
  using assms by (simp add: dynamicWalk_tick_def control_tick_def)

theorem default_case_of_both_loops_witness:
  "dynamicWalk_tick \<lparr>quit_button = False, clock_curr = 1, clock_enter = 1, getTotalTime = 0\<rparr>
     \<lparr>cur_ctrl_state = CTRL_STATES_COUNT, state_enter_time = 0, first_time_enter = False\<rparr> =
     Some (\<lparr>cur_ctrl_state = CTRL_STATES_COUNT, state_enter_time = 0, first_time_enter = False\<rparr>, [Freeze]) \<and>
   control_tick \<lparr>quit_button = False, clock_curr = 1, clock_enter = 1, getTotalTime = 0\<rparr>
     \<lparr>cur_ctrl_state = 7, state_enter_time = 0, first_time_enter = False\<rparr> =
     (\<lparr>cur_ctrl_state = 7, state_enter_time = 0, first_time_enter = False\<rparr>, [])"
  using default_case_of_both_loops [of
      "\<lparr>cur_ctrl_state = CTRL_STATES_COUNT, state_enter_time = 0, first_time_enter = False\<rparr>"
      "\<lparr>cur_ctrl_state = 7, state_enter_time = 0, first_time_enter = False\<rparr>"
      "\<lparr>quit_button = False, clock_curr = 1, clock_enter = 1, getTotalTime = 0\<rparr>"
      "\<lparr>quit_button = False, clock_curr = 1, clock_enter = 1, getTotalTime = 0\<rparr>"]
  by (simp add: dw_states ctl_states)

section \<open>Properties of the robot object\<close>

lemma double_arith [simp]:
  "Fin x + Fin y = Fin (x + y)" "NaN + b = NaN" "a + NaN = NaN"
  "Fin x - Fin y = Fin (x - y)" "NaN - b = NaN" "a - NaN = NaN"
  "Fin x * Fin y = Fin (x * y)" "NaN * b = NaN" "a * NaN = NaN"
  "- Fin x = Fin (- x)" "- NaN = NaN"
  "NaN / b = NaN" "a / NaN = NaN"
  "Fin x / Fin y = (if y = 0 then NaN else Fin (x / y))"
  by (simp_all add: plus_double_def minus_double_def times_double_def uminus_double_def
      divide_double_def split: double.splits)

lemma double_order [simp]:
  "Fin x < Fin y \<longleftrightarrow> x < y" "\<not> NaN < b" "\<not> a < NaN"
  "Fin x \<le> Fin y \<longleftrightarrow> x \<le> y" "\<not> NaN \<le> b" "\<not> a \<le> NaN"
  by (simp_all add: less_double_def less_eq_double_def split: double.splits)

lemma double_consts [simp]: "(0::double) = Fin 0" "(1::double) = Fin 1"
  by (simp_all add: zero_double_def one_double_def)

lemma std_sqrt_simps [simp]:
  "std_sqrt NaN = NaN" "std_sqrt (Fin x) = (if x < 0 then NaN else Fin (sqrt x))"
  by (simp_all add: std_sqrt_def)

lemma ramp_up_scale_Fin: "ramp_up_scale (Fin t) = Fin (min 1 (t + 1 / 2000))"
  by (simp add: ramp_up_scale_def std_min_def min_def)

lemma ramp_up_scale_NaN: "ramp_up_scale NaN = Fin 1"
  by (simp add: ramp_up_scale_def std_min_def)

lemma length_computeFootForces: "length (computeFootForces q) = 6"
  by (simp add: computeFootForces_def Let_def)

text \<open>
  Claim C5 as stated fails: at trajectory time 0 the ramp factor of \<^verbatim>\<open>execStandUpTraj\<close>
  is 0.0005, not 0, and half a second into the trajectory it is 0.5005, not yet 1.
\<close>

theorem ramp_at_zero_counterexample:
  "ramp_up_scale (Fin 0) = Fin (1 / 2000) \<and> ramp_up_scale (Fin 0) \<noteq> Fin 0 \<and>
   ramp_up_scale (Fin (1 / 2)) = Fin (1001 / 2000)"
  by (simp add: ramp_up_scale_Fin)

text \<open>
  Claim C5, amended. In \<^verbatim>\<open>execStandUpTraj\<close> every column of the foot-force
  distribution is multiplied by the ramp factor \<open>min(1, t + 0.0005)\<close> of the trajectory
  time \<open>t\<close>: 0.0005 at \<open>t = 0\<close>, growing linearly, 1 from \<open>t = 0.9995\<close> on. The factor
  never exceeds 1, for any argument (NaN included).
\<close>

theorem ramp_up_scale_linear_capped:
  "ramp_up_scale (Fin t) = Fin (min 1 (t + 1 / 2000)) \<and>
   ramp_up_scale c \<le> Fin 1 \<and>
   map (execStandUpTraj_foot_force q c) [0..<6] =
     map (\<lambda>f. scale_right f (ramp_up_scale c)) (computeFootForces q)"
proof -
  have le: "ramp_up_scale c \<le> Fin 1"
    by (cases c) (simp_all add: ramp_up_scale_Fin ramp_up_scale_NaN)
  have "map (execStandUpTraj_foot_force q c) [0..<6] =
     map (\<lambda>f. scale_right f (ramp_up_scale c)) (computeFootForces q)"
    by (rule nth_equalityI)
       (simp_all add: length_computeFootForces execStandUpTraj_foot_force_def Let_def)
  with le show ?thesis by (simp add: ramp_up_scale_Fin)
qed

lemma upt_0_6: "[0..<6] = [0, 1, 2, 3, 4, 5::nat]"
  by (simp add: upt_rec)

lemma all_less_6: "(\<forall>i<6. P i) \<longleftrightarrow> P 0 \<and> P 1 \<and> P 2 \<and> P 3 \<and> P 4 \<and> P (5::nat)"
proof -
  have "(\<forall>i<6. P i) \<longleftrightarrow> (\<forall>i \<in> set [0..<6]. P i)" by auto
  also have "\<dots> \<longleftrightarrow> P 0 \<and> P 1 \<and> P 2 \<and> P 3 \<and> P 4 \<and> P 5"
    unfolding upt_0_6 by simp
  finally show ?thesis .
qed

lemma ex_less_6: "(\<exists>i<6. P i) \<longleftrightarrow> P 0 \<or> P 1 \<or> P 2 \<or> P 3 \<or> P 4 \<or> P (5::nat)"
  using all_less_6 [of "\<lambda>i. \<not> P i"] by blast

lemma fold_reach_check:
  "fold (\<lambda>i r. if P i then False else r) xs b \<longleftrightarrow> b \<and> (\<forall>i \<in> set xs. \<not> P i)"
  by (induction xs arbitrary: b) auto

lemma spreadAllLegs_goal:
  "fst (spreadAllLegs_goal_cmd q) =
     computeIK (legs q 5) (home_stance_xyz (getBaseFrame (legs q 5))
       (Vec4 (Fin 0.55) (Fin 0) (Fin 0.05) (Fin 0)))"
  by (simp add: spreadAllLegs_goal_cmd_def num_legs_def upt_0_6 Let_def)

lemma spreadAllLegs_result:
  "fst (spreadAllLegs q) \<longleftrightarrow>
     (\<forall>i \<in> set [0..<6]. \<not> Fin 0.5 < norm3 (fst (spreadAllLegs_goal_cmd q) - getJointAngle (legs q i)))"
  by (simp add: spreadAllLegs_def num_legs_def Let_def fold_reach_check split: prod.splits)

lemma not_less_Fin: "\<not> isnan a \<Longrightarrow> \<not> Fin c < a \<longleftrightarrow> a \<le> Fin c"
  by (cases a) (auto simp: isnan_def)

text \<open>
  Claim C9, amended. \<^verbatim>\<open>spreadAllLegs\<close> returns true if and only if for no leg the
  norm of the difference between the IK goal of the last leg, index 5, and that leg's
  joint angles is greater than 0.5: that goal is the value left in the shared variable,
  and the goals of legs 0 to 4 do not enter the check. The test of the code is
  \<^verbatim>\<open>norm > 0.5\<close>, which is false for a NaN norm, so a leg whose norm is NaN does not
  make the result false. When no norm is NaN, the result is true if and only if every
  norm is at most 0.5.
\<close>

theorem spreadAllLegs_checks_last_goal:
  fixes q :: Quadruped
  defines "goal \<equiv> computeIK (legs q 5) (home_stance_xyz (getBaseFrame (legs q 5))
       (Vec4 (Fin 0.55) (Fin 0) (Fin 0.05) (Fin 0)))"
  shows "(fst (spreadAllLegs q) \<longleftrightarrow>
            (\<forall>i<6. \<not> Fin 0.5 < norm3 (goal - getJointAngle (legs q i)))) \<and>
         ((\<forall>i<6. \<not> isnan (norm3 (goal - getJointAngle (legs q i)))) \<longrightarrow>
            (fst (spreadAllLegs q) \<longleftrightarrow>
               (\<forall>i<6. norm3 (goal - getJointAngle (legs q i)) \<le> Fin 0.5)))"
proof -
  have A: "fst (spreadAllLegs q) \<longleftrightarrow>
            (\<forall>i<6. \<not> Fin 0.5 < norm3 (goal - getJointAngle (legs q i)))"
    unfolding goal_def spreadAllLegs_result spreadAllLegs_goal by auto
  show ?thesis
    unfolding A by (auto simp: not_less_Fin)
qed

lemma vec3_zero [simp]: "(0::vec3) = Vec3 (Fin 0) (Fin 0) (Fin 0)"
  by (simp add: zero_vec3_def)

lemma example_quadruped_simps [simp]:
  "legs example_quadruped i = example_leg (Vec3 (Fin 0.55) (Fin 0) (Fin 0.05))"
  "gravity_direction example_quadruped = Vec3 (Fin 0) (Fin 0) (Fin (- 1))"
  "weight example_quadruped = Fin 20"
  "startup_trajectories example_quadruped = []"
  by (simp_all add: example_quadruped_def)

lemma example_leg_simps [simp]:
  "getBaseFrame (example_leg a) = identity_frame"
  "getKinematicsBaseFrame (example_leg a) = identity_frame"
  "getJointAngle (example_leg a) = a"
  "computeIK (example_leg a) xyz = xyz"
  "computeCompensateTorques (example_leg a) an v g f = f"
  by (simp_all add: example_leg_def)

lemma home_stance_identity [simp]:
  "home_stance_xyz identity_frame (Vec4 (Fin x) (Fin y) (Fin z) (Fin w)) = Vec3 (Fin x) (Fin y) (Fin z)"
  by (simp add: home_stance_xyz_def identity_frame_def)

theorem spreadAllLegs_checks_last_goal_witness:
  "fst (spreadAllLegs example_quadruped)"
proof -
  have "fst (spreadAllLegs example_quadruped) \<longleftrightarrow>
      (\<forall>i<6. \<not> Fin 0.5 < norm3 (computeIK (legs example_quadruped 5)
         (home_stance_xyz (getBaseFrame (legs example_quadruped 5))
            (Vec4 (Fin 0.55) (Fin 0) (Fin 0.05) (Fin 0))) - getJointAngle (legs example_quadruped i)))"
    using spreadAllLegs_checks_last_goal [of example_quadruped] by (rule conjunct1)
  then show ?thesis
    by (simp add: norm3_def squaredNorm_def)
qed

lemma legs_after_nan_feedback:
  "i < 6 \<Longrightarrow> legs (feedback_handler nan_feedback example_quadruped) i =
     (example_leg (Vec3 (Fin 0.55) (Fin 0) (Fin 0.05)))\<lparr>getJointAngle := Vec3 NaN NaN NaN\<rparr>"
  by (simp add: feedback_handler_def num_legs_def pos_vec_def nan_feedback_def)

text \<open>
  Claim C9 as stated fails: after a feedback frame in which no module reports a
  position, every leg's joint angles are NaN; \<^verbatim>\<open>spreadAllLegs\<close> then returns true
  although the norm of the difference between the goal of leg 5 and the joint angles of
  leg 0 is not at most 0.5 (it is NaN).
\<close>

theorem spreadAllLegs_nan_counterexample:
  "getJointAngle (legs (feedback_handler nan_feedback example_quadruped) 0) = Vec3 NaN NaN NaN \<and>
   fst (spreadAllLegs (feedback_handler nan_feedback example_quadruped)) \<and>
   \<not> norm3 (computeIK (legs (feedback_handler nan_feedback example_quadruped) 5)
            (home_stance_xyz (getBaseFrame (legs (feedback_handler nan_feedback example_quadruped) 5))
               (Vec4 (Fin 0.55) (Fin 0) (Fin 0.05) (Fin 0)))
          - getJointAngle (legs (feedback_handler nan_feedback example_quadruped) 0)) \<le> Fin 0.5"
proof -
  let ?Q = "feedback_handler nan_feedback example_quadruped"
  have angles: "getJointAngle (legs ?Q i) = Vec3 NaN NaN NaN" if "i < 6" for i
    using that by (simp add: legs_after_nan_feedback)
  have goal: "fst (spreadAllLegs_goal_cmd ?Q) = Vec3 (Fin 0.55) (Fin 0) (Fin 0.05)"
    unfolding spreadAllLegs_goal by (simp add: legs_after_nan_feedback)
  have norm: "norm3 (Vec3 NaN NaN NaN) = NaN"
    by (simp add: norm3_def squaredNorm_def)
  have reached: "fst (spreadAllLegs ?Q)"
    unfolding spreadAllLegs_result goal by (simp add: angles norm)
  have far: "\<not> norm3 (computeIK (legs ?Q 5)
            (home_stance_xyz (getBaseFrame (legs ?Q 5)) (Vec4 (Fin 0.55) (Fin 0) (Fin 0.05) (Fin 0)))
          - getJointAngle (legs ?Q 0)) \<le> Fin 0.5"
    unfolding spreadAllLegs_goal [symmetric] goal by (simp add: angles norm)
  from angles [of 0] reached far show ?thesis by simp
qed

lemma standUpTraj_startup_update [simp]:
  "standUpTraj (q\<lparr>startup_trajectories := ts\<rparr>) d i = standUpTraj q d i"
  by (simp add: standUpTraj_def getLegJointAngles_def)

lemma planStandUpTraj_fold:
  "fold (\<lambda>i q. q\<lparr>startup_trajectories := startup_trajectories q @ [standUpTraj q d i]\<rparr>) xs q =
     q\<lparr>startup_trajectories := startup_trajectories q @ map (standUpTraj q d) xs\<rparr>"
  by (induction xs arbitrary: q) simp_all

lemma startup_trajectories_planStandUpTraj:
  "startup_trajectories (planStandUpTraj d q) =
     startup_trajectories q @ map (standUpTraj q d) [0..<6]"
  by (simp add: planStandUpTraj_def planStandUpTraj_fold num_legs_def)

lemma standUpTraj_Fin:
  "standUpTraj q (Fin d) i =
     \<lparr>times = [Fin 0, Fin (0.25 * d), Fin (0.5 * d), Fin (0.75 * d), Fin d],
      positions =
        (let leg_start = getJointAngle (legs q i);
             leg_end = computeIK (legs q i)
               (home_stance_xyz (getBaseFrame (legs q i)) (Vec4 (Fin 0.45) (Fin 0) (Fin (- 0.28)) (Fin 0)));
             leg_mid = Vec3 (coeff leg_end 0) (coeff leg_end 1 - Fin 0.3) (coeff leg_end 2 - Fin 0.15)
         in if i = 0 \<or> i = 3 \<or> i = 4
            then [leg_start, leg_mid, leg_end, leg_end, leg_end]
            else [leg_start, leg_start, leg_start, leg_mid, leg_end]),
      velocities = [Vec3 (Fin 0) (Fin 0) (Fin 0), Vec3 NaN NaN NaN, Vec3 (Fin 0) (Fin 0) (Fin 0),
                    Vec3 NaN NaN NaN, Vec3 (Fin 0) (Fin 0) (Fin 0)],
      accelerations = [Vec3 (Fin 0) (Fin 0) (Fin 0), Vec3 NaN NaN NaN, Vec3 (Fin 0) (Fin 0) (Fin 0),
                    Vec3 NaN NaN NaN, Vec3 (Fin 0) (Fin 0) (Fin 0)]\<rparr>"
  by (simp add: standUpTraj_def getLegJointAngles_def Let_def nan_column_def)

text \<open>
  Claim C8. \<^verbatim>\<open>planStandUpTraj(d)\<close> appends one trajectory per leg, legs 0 to 5 in
  order, each of five waypoints at times 0, 0.25 d, 0.5 d, 0.75 d and d. The first
  position is the leg's current joint angles and the last is the IK solution of the
  home stance point. Legs 0, 3 and 4 pass the raised mid waypoint at 0.25 d and are at
  the end position from 0.5 d on; the other legs stay at the start position until
  0.5 d and pass the mid waypoint at 0.75 d.
\<close>

theorem planStandUpTraj_waypoints:
  "startup_trajectories (planStandUpTraj (Fin d) q) =
     startup_trajectories q @
     map (\<lambda>i.
       \<lparr>times = [Fin 0, Fin (0.25 * d), Fin (0.5 * d), Fin (0.75 * d), Fin d],
        positions =
          (let leg_start = getJointAngle (legs q i);
               leg_end = computeIK (legs q i)
                 (home_stance_xyz (getBaseFrame (legs q i)) (Vec4 (Fin 0.45) (Fin 0) (Fin (- 0.28)) (Fin 0)));
               leg_mid = Vec3 (coeff leg_end 0) (coeff leg_end 1 - Fin 0.3) (coeff leg_end 2 - Fin 0.15)
           in if i = 0 \<or> i = 3 \<or> i = 4
              then [leg_start, leg_mid, leg_end, leg_end, leg_end]
              else [leg_start, leg_start, leg_start, leg_mid, leg_end]),
        velocities = [Vec3 (Fin 0) (Fin 0) (Fin 0), Vec3 NaN NaN NaN, Vec3 (Fin 0) (Fin 0) (Fin 0),
                      Vec3 NaN NaN NaN, Vec3 (Fin 0) (Fin 0) (Fin 0)],
        accelerations = [Vec3 (Fin 0) (Fin 0) (Fin 0), Vec3 NaN NaN NaN, Vec3 (Fin 0) (Fin 0) (Fin 0),
                      Vec3 NaN NaN NaN, Vec3 (Fin 0) (Fin 0) (Fin 0)]\<rparr>) [0..<6]"
  unfolding startup_trajectories_planStandUpTraj standUpTraj_Fin ..

lemma replicate_6: "replicate 6 x = [x, x, x, x, x, x]"
  by (simp add: eval_nat_numeral)

theorem planStandUpTraj_waypoints_witness:
  "map times (startup_trajectories (planStandUpTraj (Fin 4.5) example_quadruped)) =
     replicate 6 [Fin 0, Fin 1.125, Fin 2.25, Fin 3.375, Fin 4.5] \<and>
   map positions (startup_trajectories (planStandUpTraj (Fin 4.5) example_quadruped)) =
     [[Vec3 (Fin 0.55) (Fin 0) (Fin 0.05), Vec3 (Fin 0.45) (Fin (- 0.3)) (Fin (- 0.43)),
       Vec3 (Fin 0.45) (Fin 0) (Fin (- 0.28)), Vec3 (Fin 0.45) (Fin 0) (Fin (- 0.28)),
       Vec3 (Fin 0.45) (Fin 0) (Fin (- 0.28))],
      [Vec3 (Fin 0.55) (Fin 0) (Fin 0.05), Vec3 (Fin 0.55) (Fin 0) (Fin 0.05),
       Vec3 (Fin 0.55) (Fin 0) (Fin 0.05), Vec3 (Fin 0.45) (Fin (- 0.3)) (Fin (- 0.43)),
       Vec3 (Fin 0.45) (Fin 0) (Fin (- 0.28))],
      [Vec3 (Fin 0.55) (Fin 0) (Fin 0.05), Vec3 (Fin 0.55) (Fin 0) (Fin 0.05),
       Vec3 (Fin 0.55) (Fin 0) (Fin 0.05), Vec3 (Fin 0.45) (Fin (- 0.3)) (Fin (- 0.43)),
       Vec3 (Fin 0.45) (Fin 0) (Fin (- 0.28))],
      [Vec3 (Fin 0.55) (Fin 0) (Fin 0.05), Vec3 (Fin 0.45) (Fin (- 0.3)) (Fin (- 0.43)),
       Vec3 (Fin 0.45) (Fin 0) (Fin (- 0.28)), Vec3 (Fin 0.45) (Fin 0) (Fin (- 0.28)),
       Vec3 (Fin 0.45) (Fin 0) (Fin (- 0.28))],
      [Vec3 (Fin 0.55) (Fin 0) (Fin 0.05), Vec3 (Fin 0.45) (Fin (- 0.3)) (Fin (- 0.43)),
       Vec3 (Fin 0.45) (Fin 0) (Fin (- 0.28)), Vec3 (Fin 0.45) (Fin 0) (Fin (- 0.28)),
       Vec3 (Fin 0.45) (Fin 0) (Fin (- 0.28))],
      [Vec3 (Fin 0.55) (Fin 0) (Fin 0.05), Vec3 (Fin 0.55) (Fin 0) (Fin 0.05),
       Vec3 (Fin 0.55) (Fin 0) (Fin 0.05), Vec3 (Fin 0.45) (Fin (- 0.3)) (Fin (- 0.43)),
       Vec3 (Fin 0.45) (Fin 0) (Fin (- 0.28))]]"
  using planStandUpTraj_waypoints [of "4.5" example_quadruped]
  by (simp add: upt_0_6 Let_def replicate_6)





















lemma has_nan_Vec3 [simp]: "has_nan (Vec3 a b c) \<longleftrightarrow> a = NaN \<or> b = NaN \<or> c = NaN"
  by (simp add: has_nan_def isnan_def)

lemma fuse_gravity_eq:
  "fuse_gravity q fbk =
     normalize (fold (\<lambda>i avg_grav. if has_nan (my_grav q fbk i) then avg_grav else avg_grav + my_grav q fbk i)
       [0..<6] (Vec3 (Fin 0) (Fin 0) (Fin 0)))"
proof -
  have "(\<lambda>i avg_grav. let g = my_grav q fbk i in
           if \<not> isnan (coeff g 0) \<and> \<not> isnan (coeff g 1) \<and> \<not> isnan (coeff g 2)
           then avg_grav + g else avg_grav) =
        (\<lambda>i avg_grav. if has_nan (my_grav q fbk i) then avg_grav else avg_grav + my_grav q fbk i)"
    by (auto simp: fun_eq_iff has_nan_def Let_def)
  then show ?thesis
    by (simp add: fuse_gravity_def num_legs_def)
qed

lemma fold_skips_nan:
  assumes "\<forall>i \<in> set xs. has_nan (G i)"
  shows "fold (\<lambda>i avg_grav. if has_nan (G i) then avg_grav else avg_grav + G i) xs a = a"
  using assms by (induction xs arbitrary: a) simp_all

lemma normalize_zero: "normalize (Vec3 (Fin 0) (Fin 0) (Fin 0)) = Vec3 (Fin 0) (Fin 0) (Fin 0)"
  by (simp add: normalize_def squaredNorm_def Let_def)

lemma fold_sums_valid:
  assumes "\<forall>i \<in> set xs. has_nan (G i) \<or> G i = Vec3 (Fin dx) (Fin dy) (Fin dz)"
  shows "fold (\<lambda>i avg_grav. if has_nan (G i) then avg_grav else avg_grav + G i) xs
           (Vec3 (Fin (k * dx)) (Fin (k * dy)) (Fin (k * dz))) =
         (let m = k + real (length (filter (\<lambda>i. \<not> has_nan (G i)) xs))
          in Vec3 (Fin (m * dx)) (Fin (m * dy)) (Fin (m * dz)))"
  using assms
proof (induction xs arbitrary: k)
  case Nil
  then show ?case by simp
next
  case (Cons i xs)
  show ?case
  proof (cases "has_nan (G i)")
    case True
    with Cons show ?thesis by simp
  next
    case False
    with Cons.prems have Gi: "G i = Vec3 (Fin dx) (Fin dy) (Fin dz)" by simp
    have "Vec3 (Fin (k * dx)) (Fin (k * dy)) (Fin (k * dz)) + G i =
        Vec3 (Fin ((k + 1) * dx)) (Fin ((k + 1) * dy)) (Fin ((k + 1) * dz))"
      by (simp add: Gi algebra_simps)
    with Cons.IH [of "k + 1"] Cons.prems False show ?thesis
      by (simp add: Let_def add.assoc)
  qed
qed

lemma normalize_multiple:
  assumes m: "0 < m" and nz: "dx \<noteq> 0 \<or> dy \<noteq> 0 \<or> dz \<noteq> 0"
  shows "normalize (Vec3 (Fin (m * dx)) (Fin (m * dy)) (Fin (m * dz))) =
     Vec3 (Fin (dx / sqrt (dx\<^sup>2 + dy\<^sup>2 + dz\<^sup>2))) (Fin (dy / sqrt (dx\<^sup>2 + dy\<^sup>2 + dz\<^sup>2)))
          (Fin (dz / sqrt (dx\<^sup>2 + dy\<^sup>2 + dz\<^sup>2)))"
proof -
  let ?n = "dx\<^sup>2 + dy\<^sup>2 + dz\<^sup>2"
  have n: "0 < ?n"
    using nz by (metis add_pos_nonneg add_nonneg_pos zero_less_power2 zero_le_power2 add_nonneg_nonneg)
  have z: "m * dx * (m * dx) + m * dy * (m * dy) + m * dz * (m * dz) = m\<^sup>2 * ?n"
    by (simp add: power2_eq_square algebra_simps)
  have zpos: "0 < m\<^sup>2 * ?n"
    using m n by simp
  have s: "sqrt (m\<^sup>2 * ?n) = m * sqrt ?n"
    using m by (simp add: real_sqrt_mult)
  have sn: "sqrt ?n \<noteq> 0"
    using n by simp
  show ?thesis
    using m zpos sn by (simp add: normalize_def squaredNorm_def Let_def z s)
qed

lemma gravity_after_feedback:
  "getGravityDirection (feedback_handler fbk q) = fuse_gravity q fbk"
  by (simp add: getGravityDirection_def feedback_handler_def)

lemma my_grav_example_nan:
  "my_grav example_quadruped nan_feedback i = Vec3 NaN NaN NaN"
  by (simp add: my_grav_def nan_feedback_def identity_frame_def down_def mul_mat3_mat3_def Let_def)

lemma my_grav_example_partial:
  "my_grav example_quadruped partial_feedback i =
     (if i = 0 \<or> i = 2 then Vec3 NaN NaN NaN else Vec3 (Fin 0) (Fin 0) (Fin (- 1)))"
  by (simp add: my_grav_def partial_feedback_def identity_frame_def down_def mul_mat3_mat3_def
      Let_def num_joints_per_leg_def)

text \<open>
  Claim C2 as stated fails: with gravity direction \<open>(0, 0, -1)\<close> before a feedback frame
  in which no module reports an orientation (all six rotated estimates are NaN), the
  gravity direction after the frame is the zero vector.
\<close>

theorem all_nan_feedback_counterexample:
  "has_nan (my_grav example_quadruped nan_feedback 0) \<and>
   has_nan (my_grav example_quadruped nan_feedback 1) \<and>
   has_nan (my_grav example_quadruped nan_feedback 2) \<and>
   has_nan (my_grav example_quadruped nan_feedback 3) \<and>
   has_nan (my_grav example_quadruped nan_feedback 4) \<and>
   has_nan (my_grav example_quadruped nan_feedback 5) \<and>
   getGravityDirection example_quadruped = Vec3 (Fin 0) (Fin 0) (Fin (- 1)) \<and>
   getGravityDirection (feedback_handler nan_feedback example_quadruped) = Vec3 (Fin 0) (Fin 0) (Fin 0)"
proof -
  have "getGravityDirection example_quadruped = Vec3 (Fin 0) (Fin 0) (Fin (- 1))"
    by (simp add: getGravityDirection_def)
  moreover have "getGravityDirection (feedback_handler nan_feedback example_quadruped) =
      Vec3 (Fin 0) (Fin 0) (Fin 0)"
    by (simp add: gravity_after_feedback fuse_gravity_eq my_grav_example_nan upt_0_6 normalize_zero)
  moreover have "has_nan (my_grav example_quadruped nan_feedback i)" for i
    by (simp add: my_grav_example_nan)
  ultimately show ?thesis by simp
qed

text \<open>
  Claim C2, amended. When all six legs' rotated gravity estimates contain a NaN
  component, the handler overwrites the fused gravity direction with the normalised
  empty sum, which is the zero vector, whatever the previous value was; it is not
  overwritten with NaN.
\<close>

theorem all_nan_feedback_zeroes_gravity:
  assumes "\<forall>i<6. has_nan (my_grav q fbk i)"
  shows "getGravityDirection (feedback_handler fbk q) = Vec3 (Fin 0) (Fin 0) (Fin 0) \<and>
     \<not> has_nan (getGravityDirection (feedback_handler fbk q))"
proof -
  have "\<forall>i \<in> set [0..<6]. has_nan (my_grav q fbk i)"
    using assms by simp
  then have "fuse_gravity q fbk = Vec3 (Fin 0) (Fin 0) (Fin 0)"
    unfolding fuse_gravity_eq by (simp only: fold_skips_nan normalize_zero)
  then show ?thesis
    by (simp add: gravity_after_feedback)
qed

theorem all_nan_feedback_zeroes_gravity_witness:
  "getGravityDirection (feedback_handler nan_feedback example_quadruped) = Vec3 (Fin 0) (Fin 0) (Fin 0) \<and>
   \<not> has_nan (getGravityDirection (feedback_handler nan_feedback example_quadruped))"
  using all_nan_feedback_zeroes_gravity [of example_quadruped nan_feedback]
  by (simp add: my_grav_example_nan)

text \<open>
  Claim C6. When at least one leg's rotated gravity estimate is free of NaN and every
  NaN-free estimate is the same nonzero vector \<open>d\<close>, the fused gravity direction after
  the frame is \<open>d\<close> divided by its norm, a unit vector, however many of the other legs'
  estimates contain NaN.
\<close>

theorem fused_gravity_is_unit_direction:
  assumes each: "\<forall>i<6. has_nan (my_grav q fbk i) \<or> my_grav q fbk i = Vec3 (Fin dx) (Fin dy) (Fin dz)"
    and some: "\<exists>i<6. my_grav q fbk i = Vec3 (Fin dx) (Fin dy) (Fin dz)"
    and nz: "dx \<noteq> 0 \<or> dy \<noteq> 0 \<or> dz \<noteq> 0"
  shows "getGravityDirection (feedback_handler fbk q) =
       Vec3 (Fin (dx / sqrt (dx\<^sup>2 + dy\<^sup>2 + dz\<^sup>2))) (Fin (dy / sqrt (dx\<^sup>2 + dy\<^sup>2 + dz\<^sup>2)))
            (Fin (dz / sqrt (dx\<^sup>2 + dy\<^sup>2 + dz\<^sup>2))) \<and>
     squaredNorm (getGravityDirection (feedback_handler fbk q)) = Fin 1"
proof -
  let ?G = "my_grav q fbk"
  let ?m = "real (length (filter (\<lambda>i. \<not> has_nan (?G i)) [0..<6]))"
  let ?n = "dx\<^sup>2 + dy\<^sup>2 + dz\<^sup>2"
  have each': "\<forall>i \<in> set [0..<6]. has_nan (?G i) \<or> ?G i = Vec3 (Fin dx) (Fin dy) (Fin dz)"
    using each by simp
  from some obtain i where i: "i < 6" "?G i = Vec3 (Fin dx) (Fin dy) (Fin dz)"
    by blast
  then have "i \<in> set (filter (\<lambda>i. \<not> has_nan (?G i)) [0..<6])"
    by simp
  then have "0 < length (filter (\<lambda>i. \<not> has_nan (?G i)) [0..<6])"
    by (rule length_pos_if_in_set)
  then have m: "0 < ?m" by simp
  have "fold (\<lambda>i avg_grav. if has_nan (?G i) then avg_grav else avg_grav + ?G i) [0..<6]
          (Vec3 (Fin (0 * dx)) (Fin (0 * dy)) (Fin (0 * dz))) =
        Vec3 (Fin (?m * dx)) (Fin (?m * dy)) (Fin (?m * dz))"
    using fold_sums_valid [OF each', of 0] by (simp add: Let_def)
  then have fused: "fuse_gravity q fbk =
      Vec3 (Fin (dx / sqrt ?n)) (Fin (dy / sqrt ?n)) (Fin (dz / sqrt ?n))"
    unfolding fuse_gravity_eq by (simp add: normalize_multiple [OF m nz])
  have n: "0 < ?n"
    using nz by (metis add_pos_nonneg add_nonneg_pos zero_less_power2 zero_le_power2 add_nonneg_nonneg)
  have "dx / sqrt ?n * (dx / sqrt ?n) + dy / sqrt ?n * (dy / sqrt ?n) + dz / sqrt ?n * (dz / sqrt ?n) =
      (dx * dx + dy * dy + dz * dz) / (sqrt ?n * sqrt ?n)"
    by (simp add: add_divide_distrib)
  also have "sqrt ?n * sqrt ?n = ?n"
    using n by simp
  also have "(dx * dx + dy * dy + dz * dz) / ?n = 1"
    using n by (simp add: power2_eq_square)
  finally have unit: "squaredNorm (Vec3 (Fin (dx / sqrt ?n)) (Fin (dy / sqrt ?n)) (Fin (dz / sqrt ?n))) = Fin 1"
    by (simp add: squaredNorm_def)
  show ?thesis
    unfolding gravity_after_feedback fused using unit by simp
qed

theorem fused_gravity_is_unit_direction_witness:
  "getGravityDirection (feedback_handler partial_feedback example_quadruped) =
     Vec3 (Fin 0) (Fin 0) (Fin (- 1))"
  using fused_gravity_is_unit_direction [of example_quadruped partial_feedback 0 0 "- 1"]
  by (simp add: my_grav_example_partial all_less_6 ex_less_6)













end
